theory Spec2Isabelle
  imports Main
begin

section \<open>Python values that reach the handlers\<close>

text \<open>
  The handlers of \<^verbatim>\<open>main.py\<close> read \<^verbatim>\<open>request.json\<close>, so every value they
  touch is what Python's JSON decoder produces: \<^verbatim>\<open>None\<close>, a bool, an int, a str,
  a list or a dict with str keys. A dict is kept as the list of its items in
  insertion order. A str is a list of its characters, one \<^typ>\<open>char\<close> per
  character of the Python str. Python floats (a JSON number with a fraction or an
  exponent) are outside the model.
\<close>

datatype json =
    JNull
  | JBool bool
  | JInt int
  | JStr string
  | JArr "json list"
  | JObj "(string \<times> json) list"

text \<open>
  An exception is its class name and the text that \<^verbatim>\<open>str(e)\<close> returns. Only
  subclasses of \<^verbatim>\<open>Exception\<close> are modelled.
\<close>

datatype exn = PyExn (exn_class: string) (exn_str: string)

text \<open>Truth value testing: \<^verbatim>\<open>if x:\<close> and \<^verbatim>\<open>not x\<close>.\<close>

fun truthy :: "json \<Rightarrow> bool" where
  "truthy JNull = False"
| "truthy (JBool b) = b"
| "truthy (JInt n) = (n \<noteq> 0)"
| "truthy (JStr s) = (s \<noteq> [])"
| "truthy (JArr xs) = (xs \<noteq> [])"
| "truthy (JObj kvs) = (kvs \<noteq> [])"

text \<open>The name \<^verbatim>\<open>type(x).__name__\<close>, as it appears in Python's error messages.\<close>

fun type_name :: "json \<Rightarrow> string" where
  "type_name JNull = ''NoneType''"
| "type_name (JBool b) = ''bool''"
| "type_name (JInt n) = ''int''"
| "type_name (JStr s) = ''str''"
| "type_name (JArr xs) = ''list''"
| "type_name (JObj kvs) = ''dict''"

text \<open>\<^verbatim>\<open>d.get(key, default)\<close> on the items of a dict.\<close>

definition dict_get :: "(string \<times> json) list \<Rightarrow> string \<Rightarrow> json \<Rightarrow> json" where
  "dict_get kvs key dflt = (case map_of kvs key of Some v \<Rightarrow> v | None \<Rightarrow> dflt)"

text \<open>
  \<^verbatim>\<open>data.get(key, default)\<close> on an arbitrary decoded value: only a dict has the
  method, any other value raises AttributeError.
\<close>

definition attribute_error :: "json \<Rightarrow> string \<Rightarrow> exn" where
  "attribute_error x name =
     PyExn ''AttributeError''
       ([CHR 0x27] @ type_name x @ [CHR 0x27] @ '' object has no attribute ''
          @ [CHR 0x27] @ name @ [CHR 0x27])"

text \<open>
  Hashing, as a dict lookup performs it on its key: lists and dicts are unhashable
  and the lookup raises TypeError before it looks at the dict.
\<close>

fun hashable :: "json \<Rightarrow> bool" where
  "hashable (JArr xs) = False"
| "hashable (JObj kvs) = False"
| "hashable x = True"

definition unhashable_error :: "json \<Rightarrow> exn" where
  "unhashable_error x =
     PyExn ''TypeError'' (''unhashable type: '' @ [CHR 0x27] @ type_name x @ [CHR 0x27])"

text \<open>
  Equality of dict keys is Python's \<^verbatim>\<open>==\<close>: a bool is the int 0 or 1, so
  \<^verbatim>\<open>True\<close> and \<^verbatim>\<open>1\<close> are the same key; a str equals only the same str and
  \<^verbatim>\<open>None\<close> only \<^verbatim>\<open>None\<close>.
\<close>

fun num_val :: "json \<Rightarrow> int option" where
  "num_val (JBool b) = Some (if b then 1 else 0)"
| "num_val (JInt n) = Some n"
| "num_val x = None"

definition py_eq :: "json \<Rightarrow> json \<Rightarrow> bool" where
  "py_eq a b =
     (case (num_val a, num_val b) of
        (Some x, Some y) \<Rightarrow> x = y
      | (None, None) \<Rightarrow> a = b
      | _ \<Rightarrow> False)"

text \<open>\<^verbatim>\<open>sep.join(parts)\<close>.\<close>

fun py_join :: "string \<Rightarrow> string list \<Rightarrow> string" where
  "py_join sep [] = []"
| "py_join sep [x] = x"
| "py_join sep (x # y # ys) = x @ sep @ py_join sep (y # ys)"

text \<open>\<^verbatim>\<open>str(n)\<close> of a non-negative int: its decimal digits.\<close>

definition digit_char :: "nat \<Rightarrow> char" where
  "digit_char d = ''0123456789'' ! d"

function str_nat :: "nat \<Rightarrow> string" where
  "str_nat n = (if n < 10 then [digit_char n] else str_nat (n div 10) @ [digit_char (n mod 10)])"
  by pat_completeness auto
termination
  by (relation "measure id") auto

declare str_nat.simps [simp del]

section \<open>The transcript cache\<close>

text \<open>
  \<^verbatim>\<open>transcript_cache\<close> is a module-level dict from video id to transcript text.
  It is modelled by its items in insertion order, which is the order
  \<^verbatim>\<open>list(transcript_cache.keys())\<close> returns. The transcript service and the
  language model are outside the repository: each is a function from the argument
  of the call to its outcome, and the state records every call made to them.
  What the code prints is not part of the state.
\<close>

type_synonym cache = "(json \<times> string) list"

record store =
  cache :: cache
  fetch_log :: "json list"
  llm_log :: "string list"

text \<open>
  One segment of a transcript as \<^verbatim>\<open>YouTubeTranscriptApi.get_transcript\<close> returns it:
  the text with its start time and its duration. The code reads the text only; the
  two times are kept as whole numbers.
\<close>

record entry =
  entry_text :: string
  entry_start :: nat
  entry_duration :: nat

type_synonym fetcher = "json \<Rightarrow> exn + entry list"

type_synonym llm = "string \<Rightarrow> exn + string"

text \<open>\<^verbatim>\<open>transcript_cache[k]\<close> for a hashable \<open>k\<close>; \<open>None\<close> when \<^verbatim>\<open>k in transcript_cache\<close> is false.\<close>

fun cache_get :: "cache \<Rightarrow> json \<Rightarrow> string option" where
  "cache_get [] k = None"
| "cache_get ((k', v) # rest) k = (if py_eq k' k then Some v else cache_get rest k)"

text \<open>
  \<^verbatim>\<open>transcript_cache[k] = v\<close>: an existing key keeps its place (and its key object),
  a new key goes to the end.
\<close>

fun cache_set :: "cache \<Rightarrow> json \<Rightarrow> string \<Rightarrow> cache" where
  "cache_set [] k v = [(k, v)]"
| "cache_set ((k', v') # rest) k v =
     (if py_eq k' k then (k', v) # rest else (k', v') # cache_set rest k v)"

text \<open>The items of a dict: hashable keys, no two of them equal.\<close>

fun wf_cache :: "cache \<Rightarrow> bool" where
  "wf_cache [] = True"
| "wf_cache ((k, v) # rest) = (hashable k \<and> cache_get rest k = None \<and> wf_cache rest)"

text \<open>
  \<^verbatim>\<open>get_cached_transcript\<close> (lines 43 to 64). The membership test of line 45 is
  outside the \<^verbatim>\<open>try\<close>, so the TypeError of an unhashable id leaves the function.
  Everything raised from line 50 on is caught and turned into \<^verbatim>\<open>None\<close>.
\<close>

definition get_cached_transcript ::
  "fetcher \<Rightarrow> json \<Rightarrow> store \<Rightarrow> (exn + string option) \<times> store" where
  "get_cached_transcript fetch video_id s =
     (if \<not> hashable video_id then (Inl (unhashable_error video_id), s)
      else
        (case cache_get (cache s) video_id of
           Some t \<Rightarrow> (Inr (Some t), s)
         | None \<Rightarrow>
             (let s1 = s\<lparr>fetch_log := fetch_log s @ [video_id]\<rparr> in
              case fetch video_id of
                Inl e \<Rightarrow> (Inr None, s1)
              | Inr transcript_list \<Rightarrow>
                  (let full_transcript = py_join '' '' (map entry_text transcript_list)
                   in (Inr (Some full_transcript),
                       s1\<lparr>cache := cache_set (cache s1) video_id full_transcript\<rparr>)))))"

section \<open>Extracting the video id\<close>

text \<open>
  \<^verbatim>\<open>extract_video_id\<close> (lines 29 to 41) tries three regular expressions in order
  with \<^verbatim>\<open>re.search\<close>. Each of them is a non-capturing group of literal
  alternatives followed by the capturing group \<^verbatim>\<open>([0-9A-Za-z_-]{11})\<close>; the first
  one ends in \<^verbatim>\<open>.*\<close>, which also matches the empty string and so never decides
  whether the expression matches nor what the group captures. A pattern is therefore
  kept as the list of its alternatives, in the order the source writes them.
\<close>

definition id_char :: "char \<Rightarrow> bool" where
  "id_char c \<longleftrightarrow>
     c \<in> set ''0123456789ABCDEFGHIJKLMNOPQRSTUVWXYZabcdefghijklmnopqrstuvwxyz_-''"

text \<open>The capturing group at the start of \<open>s\<close>: exactly eleven characters of the class.\<close>

definition capture11 :: "string \<Rightarrow> string option" where
  "capture11 s =
     (if 11 \<le> length s \<and> list_all id_char (take 11 s) then Some (take 11 s) else None)"

text \<open>
  Matching at the start of \<open>s\<close>: the alternatives are tried from left to right, and
  the matcher backtracks to the next one when the group fails after an alternative.
\<close>

fun match_here :: "string list \<Rightarrow> string \<Rightarrow> string option" where
  "match_here [] s = None"
| "match_here (alt # alts) s =
     (if take (length alt) s = alt then
        (case capture11 (drop (length alt) s) of
           Some g \<Rightarrow> Some g
         | None \<Rightarrow> match_here alts s)
      else match_here alts s)"

text \<open>\<^verbatim>\<open>re.search\<close>: the leftmost position at which the pattern matches; group 1 of the match.\<close>

fun re_search :: "string list \<Rightarrow> string \<Rightarrow> string option" where
  "re_search alts [] = match_here alts []"
| "re_search alts (c # cs) =
     (case match_here alts (c # cs) of
        Some g \<Rightarrow> Some g
      | None \<Rightarrow> re_search alts cs)"

definition patterns :: "string list list" where
  "patterns = [[''v='', ''/''], [''embed/''], [''watch?v='']]"

text \<open>The loop of lines 37 to 41 over a list of patterns.\<close>

fun first_match :: "string list list \<Rightarrow> string \<Rightarrow> string option" where
  "first_match [] url = None"
| "first_match (pattern # rest) url =
     (case re_search pattern url of
        Some g \<Rightarrow> Some g
      | None \<Rightarrow> first_match rest url)"

definition extract_video_id :: "string \<Rightarrow> string option" where
  "extract_video_id url = first_match patterns url"

section \<open>The request handlers\<close>

text \<open>
  A handler returns what Flask sends back: a status code and a JSON body (the items
  of the dict given to \<^verbatim>\<open>jsonify\<close>, in the order the source writes them). The
  result of a handler is a sum, so that an exception that leaves the handler would be
  visible as \<open>Inl\<close>. The request is the outcome of reading \<^verbatim>\<open>request.json\<close>: the
  decoded body, or the exception Flask raises when there is none to decode.
\<close>

record response =
  resp_status :: nat
  resp_body :: json

type_synonym request = "exn + json"

definition health_check :: "string option \<Rightarrow> store \<Rightarrow> (exn + response) \<times> store" where
  "health_check api_key s =
     (Inr \<lparr>resp_status = 200,
           resp_body = JObj
             [(''status'', JStr ''healthy''),
              (''message'', JStr ''YouTube AI Tutor API is running with Claude''),
              (''api_key_configured'',
                 JBool (case api_key of None \<Rightarrow> False | Some k \<Rightarrow> k \<noteq> [])),
              (''cached_videos'', JInt (int (length (cache s))))]\<rparr>,
      s)"

text \<open>
  The body of the \<^verbatim>\<open>try\<close> of \<^verbatim>\<open>ask_tutor\<close> (lines 78 to 124). \<open>fmt\<close> is what an
  f-string makes of a decoded value (for a str, the str itself). The call of line 103
  sends fixed settings and one user message; the model keeps the content of that
  message, and the answer is the text of the first block of the reply, or the
  exception raised on the way to it.
\<close>

definition ask_tutor_body ::
  "(json \<Rightarrow> string) \<Rightarrow> fetcher \<Rightarrow> llm \<Rightarrow> request \<Rightarrow> store \<Rightarrow> (exn + response) \<times> store" where
  "ask_tutor_body fmt fetch llm req s =
     (case req of
        Inl e \<Rightarrow> (Inl e, s)
      | Inr data \<Rightarrow>
          (case data of
             JObj kvs \<Rightarrow>
               (let question = dict_get kvs ''question'' (JStr []);
                    video_title = dict_get kvs ''videoTitle'' (JStr []);
                    current_time = dict_get kvs ''currentTime'' (JInt 0);
                    video_id = dict_get kvs ''videoId'' (JStr [])
                in
                  if \<not> truthy question then
                    (Inr \<lparr>resp_status = 400,
                          resp_body = JObj [(''error'', JStr ''Question is required'')]\<rparr>, s)
                  else
                    (let context = ''Video: '' @ fmt video_title @ [CHR 0x0A]
                                     @ ''Current time: '' @ fmt current_time @ ''s''
                     in
                       case (if truthy video_id then
                               (case get_cached_transcript fetch video_id s of
                                  (Inl e, s1) \<Rightarrow> (Inl e, s1)
                                | (Inr video_transcript, s1) \<Rightarrow>
                                    (case video_transcript of
                                       Some t \<Rightarrow>
                                         (Inr (if t \<noteq> [] then
                                                 context @ [CHR 0x0A] @ ''Transcript: ''
                                                   @ take 3000 t @ ''...''
                                               else context), s1)
                                     | None \<Rightarrow> (Inr context, s1)))
                             else (Inr context, s)) of
                         (Inl e, s1) \<Rightarrow> (Inl e, s1)
                       | (Inr context', s1) \<Rightarrow>
                           (let content = ''Context: '' @ context' @ [CHR 0x0A, CHR 0x0A]
                                            @ ''Question: '' @ fmt question;
                                s2 = s1\<lparr>llm_log := llm_log s1 @ [content]\<rparr>
                            in
                              case llm content of
                                Inl e \<Rightarrow> (Inl e, s2)
                              | Inr answer \<Rightarrow>
                                  (Inr \<lparr>resp_status = 200,
                                        resp_body = JObj
                                          [(''answer'', JStr answer),
                                           (''videoTitle'', video_title),
                                           (''currentTime'', current_time),
                                           (''cached'',
                                              JBool (if truthy video_id
                                                     then cache_get (cache s2) video_id \<noteq> None
                                                     else False))]\<rparr>,
                                   s2))))
           | _ \<Rightarrow> (Inl (attribute_error data ''get''), s)))"

text \<open>\<^verbatim>\<open>ask_tutor\<close> with its \<^verbatim>\<open>except Exception\<close> (lines 126 to 129).\<close>

definition ask_tutor ::
  "(json \<Rightarrow> string) \<Rightarrow> fetcher \<Rightarrow> llm \<Rightarrow> request \<Rightarrow> store \<Rightarrow> (exn + response) \<times> store" where
  "ask_tutor fmt fetch llm req s =
     (case ask_tutor_body fmt fetch llm req s of
        (Inl e, s') \<Rightarrow>
          (Inr \<lparr>resp_status = 500,
                resp_body = JObj
                  [(''error'', JStr (''Error processing request: '' @ exn_str e))]\<rparr>, s')
      | (Inr r, s') \<Rightarrow> (Inr r, s'))"

text \<open>The body of the \<^verbatim>\<open>try\<close> of \<^verbatim>\<open>get_transcript\<close> (lines 135 to 151).\<close>

definition get_transcript_body ::
  "fetcher \<Rightarrow> request \<Rightarrow> store \<Rightarrow> (exn + response) \<times> store" where
  "get_transcript_body fetch req s =
     (case req of
        Inl e \<Rightarrow> (Inl e, s)
      | Inr data \<Rightarrow>
          (case data of
             JObj kvs \<Rightarrow>
               (let video_id = dict_get kvs ''videoId'' (JStr []) in
                  if \<not> truthy video_id then
                    (Inr \<lparr>resp_status = 400,
                          resp_body = JObj [(''error'', JStr ''Video ID is required'')]\<rparr>, s)
                  else
                    (case get_cached_transcript fetch video_id s of
                       (Inl e, s1) \<Rightarrow> (Inl e, s1)
                     | (Inr transcript, s1) \<Rightarrow>
                         (case transcript of
                            Some t \<Rightarrow>
                              if t \<noteq> [] then
                                (Inr \<lparr>resp_status = 200,
                                      resp_body = JObj
                                        [(''success'', JBool True),
                                         (''message'', JStr ''Transcript cached successfully''),
                                         (''length'', JInt (int (length t)))]\<rparr>, s1)
                              else
                                (Inr \<lparr>resp_status = 404,
                                      resp_body = JObj
                                        [(''error'',
                                          JStr ''No transcript available for this video'')]\<rparr>, s1)
                          | None \<Rightarrow>
                              (Inr \<lparr>resp_status = 404,
                                    resp_body = JObj
                                      [(''error'',
                                        JStr ''No transcript available for this video'')]\<rparr>, s1))))
           | _ \<Rightarrow> (Inl (attribute_error data ''get''), s)))"

text \<open>\<^verbatim>\<open>get_transcript\<close> with its \<^verbatim>\<open>except Exception\<close> (lines 153 to 155).\<close>

definition get_transcript ::
  "fetcher \<Rightarrow> request \<Rightarrow> store \<Rightarrow> (exn + response) \<times> store" where
  "get_transcript fetch req s =
     (case get_transcript_body fetch req s of
        (Inl e, s') \<Rightarrow>
          (Inr \<lparr>resp_status = 500,
                resp_body = JObj
                  [(''error'', JStr (''Failed to get transcript: '' @ exn_str e))]\<rparr>, s')
      | (Inr r, s') \<Rightarrow> (Inr r, s'))"

text \<open>
  \<^verbatim>\<open>cache_status\<close> (lines 157 to 167) has no \<^verbatim>\<open>try\<close>. Every value of the cache is
  a str, so \<^verbatim>\<open>len\<close> is defined on each of them.
\<close>

definition cache_status :: "store \<Rightarrow> (exn + response) \<times> store" where
  "cache_status s =
     (let cached_videos = map fst (cache s);
          total_size = sum_list (map (\<lambda>transcript. length transcript) (map snd (cache s)))
      in
        (Inr \<lparr>resp_status = 200,
              resp_body = JObj
                [(''cached_videos'', JInt (int (length cached_videos))),
                 (''video_ids'', JArr cached_videos),
                 (''total_cache_size'', JInt (int total_size))]\<rparr>,
         s))"

text \<open>\<^verbatim>\<open>clear_cache\<close> (lines 169 to 177) has no \<^verbatim>\<open>try\<close> either.\<close>

definition clear_cache :: "store \<Rightarrow> (exn + response) \<times> store" where
  "clear_cache s =
     (let cache_size = length (cache s) in
        (Inr \<lparr>resp_status = 200,
              resp_body = JObj
                [(''message'',
                  JStr (''Cache cleared. Removed '' @ str_nat cache_size
                          @ '' cached transcripts.''))]\<rparr>,
         s\<lparr>cache := []\<rparr>))"

section \<open>The transcript as the specification words it\<close>

text \<open>
  The specification calls Transcript the string formed by joining the text fields of
  all entries with single spaces, in source order: the first text, then every
  further text behind one space.
\<close>

fun spec_transcript :: "entry list \<Rightarrow> string" where
  "spec_transcript [] = []"
| "spec_transcript (e # es) = entry_text e @ concat (map (\<lambda>e'. '' '' @ entry_text e') es)"

section \<open>Sample inputs\<close>

text \<open>The state at process start: line 27 creates the cache empty.\<close>

definition store0 :: store where
  "store0 = \<lparr>cache = [], fetch_log = [], llm_log = []\<rparr>"

definition sample_entries :: "entry list" where
  "sample_entries =
     [\<lparr>entry_text = ''never gonna'', entry_start = 0, entry_duration = 1500\<rparr>,
      \<lparr>entry_text = ''give you up'', entry_start = 1500, entry_duration = 2000\<rparr>]"

definition fetch_ok :: fetcher where
  "fetch_ok video_id = Inr sample_entries"

definition fetch_down :: fetcher where
  "fetch_down video_id = Inl (PyExn ''TranscriptsDisabled'' ''Subtitles are disabled'')"

definition llm_ok :: llm where
  "llm_ok content = Inr ''It is a song.''"

definition llm_down :: llm where
  "llm_down content = Inl (PyExn ''APIConnectionError'' ''Connection error.'')"

text \<open>
  What an f-string makes of \<^verbatim>\<open>None\<close>, a bool, an int and a str. The text of a list
  or a dict is not modelled; the sample requests hold none.
\<close>

definition fmt_scalar :: "json \<Rightarrow> string" where
  "fmt_scalar x =
     (case x of
        JNull \<Rightarrow> ''None''
      | JBool b \<Rightarrow> (if b then ''True'' else ''False'')
      | JInt n \<Rightarrow> (if n < 0 then ''-'' @ str_nat (nat (- n)) else str_nat (nat n))
      | JStr s \<Rightarrow> s
      | _ \<Rightarrow> [])"

section \<open>Reading a response\<close>

text \<open>A field of a JSON body, as a client reads it.\<close>

definition body_field :: "response \<Rightarrow> string \<Rightarrow> json option" where
  "body_field r key = (case resp_body r of JObj kvs \<Rightarrow> map_of kvs key | _ \<Rightarrow> None)"

section \<open>Properties of the cache\<close>

lemma py_eq_refl: "py_eq k k"
  by (cases k) (simp_all add: py_eq_def)

lemma cache_set_absent: "cache_get c k = None \<Longrightarrow> cache_set c k v = c @ [(k, v)]"
  by (induction c) (auto split: if_splits)

lemma cache_get_append_absent:
  "cache_get c k = None \<Longrightarrow> cache_get (c @ [(k, v)]) k = Some v"
  by (induction c) (auto simp: py_eq_refl split: if_splits)

lemma cache_get_set_same: "cache_get (cache_set c k v) k = Some v"
  by (induction c) (auto simp: py_eq_refl)

lemma py_eq_sym: "py_eq a b = py_eq b a"
  by (cases a; cases b) (auto simp: py_eq_def)

lemma cache_get_None_keys: "cache_get c k = None \<Longrightarrow> \<forall>k' \<in> set (map fst c). \<not> py_eq k' k"
  by (induction c) (force split: if_splits)+

lemma cache_get_iff_keys: "cache_get c k \<noteq> None \<longleftrightarrow> (\<exists>k' \<in> set (map fst c). py_eq k' k)"
  by (induction c) auto

lemma wf_cache_distinct: "wf_cache c \<Longrightarrow> distinct (map fst c)"
proof (induction c)
  case Nil
  then show ?case by simp
next
  case (Cons p c)
  obtain k v where p: "p = (k, v)" by (cases p)
  from Cons.prems p have "cache_get c k = None" and "wf_cache c" by simp_all
  then have "k \<notin> set (map fst c)" and "distinct (map fst c)"
    using cache_get_None_keys [of c k] py_eq_refl [of k] Cons.IH by auto
  with p show ?case by simp
qed

lemma cache_get_append_other:
  "\<not> py_eq k k' \<Longrightarrow> cache_get (c @ [(k, v)]) k' = cache_get c k'"
  by (induction c) auto

lemma wf_cache_append:
  "wf_cache c \<Longrightarrow> hashable k \<Longrightarrow> cache_get c k = None \<Longrightarrow> wf_cache (c @ [(k, v)])"
proof (induction c)
  case Nil
  then show ?case by simp
next
  case (Cons p c)
  obtain k' v' where p: "p = (k', v')" by (cases p)
  from Cons.prems p have a: "hashable k'" "cache_get c k' = None" "wf_cache c"
    and b: "\<not> py_eq k' k" "cache_get c k = None"
    by (auto split: if_splits)
  from b(1) have "\<not> py_eq k k'" by (simp add: py_eq_sym)
  then have "cache_get (c @ [(k, v)]) k' = None"
    using a(2) by (simp add: cache_get_append_other)
  moreover have "wf_cache (c @ [(k, v)])"
    using Cons.IH a(3) Cons.prems(2) b(2) by simp
  ultimately show ?case using p a(1) by simp
qed

lemma get_cached_transcript_wf:
  "wf_cache (cache s) \<Longrightarrow> wf_cache (cache (snd (get_cached_transcript fetch video_id s)))"
  by (auto simp: get_cached_transcript_def Let_def cache_set_absent wf_cache_append
           split: option.splits sum.splits)

lemma get_cached_transcript_llm_log:
  "llm_log (snd (get_cached_transcript fetch video_id s)) = llm_log s"
  by (auto simp: get_cached_transcript_def Let_def split: option.splits sum.splits)

lemma py_join_Cons: "py_join sep (x # xs) = x @ concat (map (\<lambda>y. sep @ y) xs)"
  by (induction xs arbitrary: x) auto

lemma py_join_spec_transcript: "py_join '' '' (map entry_text es) = spec_transcript es"
  by (cases es) (simp_all add: py_join_Cons comp_def)

section \<open>The cache stays a dict\<close>

lemma wf_cache_store0: "wf_cache (cache store0)"
  by (simp add: store0_def)

lemma get_cached_transcript_wf_result:
  "get_cached_transcript fetch video_id s = (r, s1) \<Longrightarrow> wf_cache (cache s)
     \<Longrightarrow> wf_cache (cache s1)"
  using get_cached_transcript_wf [of s fetch video_id] by simp

lemma ask_tutor_wf:
  "wf_cache (cache s) \<Longrightarrow> wf_cache (cache (snd (ask_tutor fmt fetch llm req s)))"
  by (auto simp: ask_tutor_def ask_tutor_body_def Let_def
           split: sum.splits json.splits prod.splits option.splits if_splits
           dest: get_cached_transcript_wf_result)

lemma get_transcript_wf:
  "wf_cache (cache s) \<Longrightarrow> wf_cache (cache (snd (get_transcript fetch req s)))"
  by (auto simp: get_transcript_def get_transcript_body_def Let_def
           split: sum.splits json.splits prod.splits option.splits if_splits
           dest: get_cached_transcript_wf_result)

lemma clear_cache_wf: "wf_cache (cache (snd (clear_cache s)))"
  by (simp add: clear_cache_def Let_def)

section \<open>Properties of the pattern search\<close>

lemma capture11_Some:
  "capture11 s = Some g \<Longrightarrow> length g = 11 \<and> list_all id_char g \<and> (\<exists>post. s = g @ post)"
  by (auto simp: capture11_def split: if_splits intro: exI [of _ "drop 11 s"])

lemma capture11_None:
  "capture11 (g @ post) = None \<Longrightarrow> length g = 11 \<Longrightarrow> \<not> list_all id_char g"
  by (auto simp: capture11_def split: if_splits)

lemma match_here_Some:
  "match_here alts s = Some g \<Longrightarrow>
     \<exists>alt \<in> set alts. \<exists>post. s = alt @ g @ post \<and> length g = 11 \<and> list_all id_char g"
proof (induction alts)
  case Nil
  then show ?case by simp
next
  case (Cons alt alts)
  show ?case
  proof (cases "take (length alt) s = alt \<and> capture11 (drop (length alt) s) = Some g")
    case True
    then obtain post where "drop (length alt) s = g @ post" "length g = 11" "list_all id_char g"
      using capture11_Some by blast
    moreover from True have "s = alt @ drop (length alt) s"
      by (metis append_take_drop_id)
    ultimately show ?thesis by auto
  next
    case False
    with Cons.prems have "match_here alts s = Some g"
      by (auto split: if_splits option.splits)
    with Cons.IH show ?thesis by auto
  qed
qed

lemma match_here_None:
  "match_here alts (alt @ g @ post) = None \<Longrightarrow> alt \<in> set alts \<Longrightarrow> length g = 11
     \<Longrightarrow> \<not> list_all id_char g"
  by (induction alts) (auto simp: capture11_None split: if_splits option.splits)

lemma re_search_Some:
  "re_search alts url = Some g \<Longrightarrow>
     \<exists>pre. \<exists>alt \<in> set alts. \<exists>post.
       url = pre @ alt @ g @ post \<and> length g = 11 \<and> list_all id_char g"
proof (induction url)
  case Nil
  then show ?case using match_here_Some [of alts "[]" g] by auto
next
  case (Cons c cs)
  show ?case
  proof (cases "match_here alts (c # cs)")
    case None
    with Cons.prems have "re_search alts cs = Some g" by simp
    with Cons.IH obtain pre alt post where
      "alt \<in> set alts" "cs = pre @ alt @ g @ post" "length g = 11" "list_all id_char g"
      by blast
    then have "c # cs = (c # pre) @ alt @ g @ post" by simp
    with \<open>alt \<in> set alts\<close> \<open>length g = 11\<close> \<open>list_all id_char g\<close> show ?thesis by blast
  next
    case (Some g')
    with Cons.prems have "match_here alts (c # cs) = Some g" by simp
    then obtain alt post where
      "alt \<in> set alts" "c # cs = alt @ g @ post" "length g = 11" "list_all id_char g"
      using match_here_Some by blast
    then have "c # cs = [] @ alt @ g @ post" by simp
    with \<open>alt \<in> set alts\<close> \<open>length g = 11\<close> \<open>list_all id_char g\<close> show ?thesis by blast
  qed
qed

lemma re_search_None:
  "re_search alts url = None \<Longrightarrow> alt \<in> set alts \<Longrightarrow> url = pre @ alt @ g @ post
     \<Longrightarrow> length g = 11 \<Longrightarrow> \<not> list_all id_char g"
proof (induction url arbitrary: pre)
  case Nil
  then show ?case by auto
next
  case (Cons c cs)
  from Cons.prems(1) have m: "match_here alts (c # cs) = None" and r: "re_search alts cs = None"
    by (auto split: option.splits)
  show ?case
  proof (cases pre)
    case Nil
    with Cons.prems(3) m have "match_here alts (alt @ g @ post) = None" by simp
    then show ?thesis using Cons.prems(2,4) by (rule match_here_None)
  next
    case (Cons c' pre')
    with Cons.prems(3) have "cs = pre' @ alt @ g @ post" by simp
    with r Cons.prems(2,4) show ?thesis using Cons.IH by blast
  qed
qed

lemma first_match_None: "first_match ps url = None \<longleftrightarrow> (\<forall>p \<in> set ps. re_search p url = None)"
  by (induction ps) (auto split: option.splits)

lemma first_match_wins:
  "ps = ps1 @ p # ps2 \<Longrightarrow> \<forall>q \<in> set ps1. re_search q url = None \<Longrightarrow> re_search p url = Some g
     \<Longrightarrow> first_match ps url = Some g"
  by (induction ps1 arbitrary: ps) auto

lemma first_match_Some:
  "first_match ps url = Some g \<Longrightarrow>
     \<exists>ps1 p ps2. ps = ps1 @ p # ps2 \<and> (\<forall>q \<in> set ps1. re_search q url = None)
                  \<and> re_search p url = Some g"
proof (induction ps)
  case Nil
  then show ?case by simp
next
  case (Cons p ps)
  show ?case
  proof (cases "re_search p url")
    case None
    with Cons obtain ps1 p' ps2 where
      "ps = ps1 @ p' # ps2" "\<forall>q \<in> set ps1. re_search q url = None" "re_search p' url = Some g"
      by auto
    with None have "p # ps = (p # ps1) @ p' # ps2 \<and> (\<forall>q \<in> set (p # ps1). re_search q url = None)
                      \<and> re_search p' url = Some g" by simp
    then show ?thesis by blast
  next
    case (Some g')
    with Cons.prems have "p # ps = [] @ p # ps \<and> (\<forall>q \<in> set []. re_search q url = None)
                           \<and> re_search p url = Some g" by simp
    then show ?thesis by blast
  qed
qed

lemma extract_watch_url: "extract_video_id ''https://www.youtube.com/watch?v=dQw4w9WgXcQ'' = Some ''dQw4w9WgXcQ''"
  by (simp add: extract_video_id_def patterns_def capture11_def id_char_def)
lemma extract_short_url: "extract_video_id ''https://youtu.be/dQw4w9WgXcQ'' = Some ''dQw4w9WgXcQ''"
  by (simp add: extract_video_id_def patterns_def capture11_def id_char_def)
lemma extract_not_a_url: "extract_video_id ''not a url'' = None"
  by (simp add: extract_video_id_def patterns_def capture11_def id_char_def)

section \<open>Decimal digits\<close>

lemma str_nat_zero: "str_nat 0 = ''0''"
  by (simp add: str_nat.simps [of 0] digit_char_def)

lemma str_nat_one: "str_nat (Suc 0) = ''1''"
  by (simp add: str_nat.simps [of "Suc 0"] digit_char_def)

section \<open>Claims about the cache\<close>

text \<open>
  C1. When the transcript service answers for a video id, two calls of
  \<^verbatim>\<open>get_cached_transcript\<close> in a row return the same transcript, and the second call
  does not reach the service and leaves the state as it is, whatever the service
  would answer then. When the id is cached at the start, the first call returns the
  stored transcript and leaves the state as it is too; otherwise the first call is
  the only one that reaches the service.
\<close>

theorem get_cached_transcript_twice:
  assumes "hashable video_id" and "fetch1 video_id = Inr transcript_list"
  shows "\<exists>t s1.
           get_cached_transcript fetch1 video_id s = (Inr (Some t), s1)
         \<and> get_cached_transcript fetch2 video_id s1 = (Inr (Some t), s1)
         \<and> (case cache_get (cache s) video_id of
              Some t0 \<Rightarrow> t = t0 \<and> s1 = s
            | None \<Rightarrow> fetch_log s1 = fetch_log s @ [video_id])"
proof (cases "cache_get (cache s) video_id")
  case (Some t0)
  with assms show ?thesis
    by (simp add: get_cached_transcript_def)
next
  case None
  with assms show ?thesis
    by (simp add: get_cached_transcript_def Let_def cache_get_set_same)
qed

theorem get_cached_transcript_twice_witness:
  "hashable (JStr ''dQw4w9WgXcQ'')
   \<and> fetch_ok (JStr ''dQw4w9WgXcQ'') = Inr sample_entries
   \<and> (\<exists>t s1.
         get_cached_transcript fetch_ok (JStr ''dQw4w9WgXcQ'') store0 = (Inr (Some t), s1)
       \<and> get_cached_transcript fetch_down (JStr ''dQw4w9WgXcQ'') s1 = (Inr (Some t), s1)
       \<and> fetch_log s1 = [JStr ''dQw4w9WgXcQ''])"
  using get_cached_transcript_twice
    [of "JStr ''dQw4w9WgXcQ''" fetch_ok sample_entries store0 fetch_down]
  by (simp add: store0_def fetch_ok_def)

text \<open>
  C2. When the id is not cached and the transcript service fails for it,
  \<^verbatim>\<open>get_cached_transcript\<close> returns \<^verbatim>\<open>None\<close> and leaves the cache as it was: the
  cache status is the same as before and no key of the cache equals the id. A second
  call for the same id reaches the service again, whatever the service answers then.
\<close>

theorem get_cached_transcript_failure_not_cached:
  assumes "hashable video_id"
    and "cache_get (cache s) video_id = None"
    and "fetch1 video_id = Inl e"
  shows "get_cached_transcript fetch1 video_id s
           = (Inr None, s\<lparr>fetch_log := fetch_log s @ [video_id]\<rparr>)
       \<and> cache (snd (get_cached_transcript fetch1 video_id s)) = cache s
       \<and> fst (cache_status (snd (get_cached_transcript fetch1 video_id s)))
           = fst (cache_status s)
       \<and> (\<forall>k \<in> set (map fst (cache (snd (get_cached_transcript fetch1 video_id s)))).
             \<not> py_eq k video_id)
       \<and> fetch_log (snd (get_cached_transcript fetch2 video_id
                            (snd (get_cached_transcript fetch1 video_id s))))
           = fetch_log s @ [video_id, video_id]"
proof -
  have r: "get_cached_transcript fetch1 video_id s
             = (Inr None, s\<lparr>fetch_log := fetch_log s @ [video_id]\<rparr>)"
    using assms by (simp add: get_cached_transcript_def)
  have k: "\<forall>k \<in> set (map fst (cache s)). \<not> py_eq k video_id"
    using assms(2) by (rule cache_get_None_keys)
  have f: "fetch_log (snd (get_cached_transcript fetch2 video_id
                             (s\<lparr>fetch_log := fetch_log s @ [video_id]\<rparr>)))
             = fetch_log s @ [video_id, video_id]"
    using assms(1,2)
    by (simp add: get_cached_transcript_def Let_def split: sum.splits)
  show ?thesis
    using r k f by (simp add: cache_status_def)
qed

theorem get_cached_transcript_failure_not_cached_witness:
  "hashable (JStr ''abc12345678'')
   \<and> cache_get (cache store0) (JStr ''abc12345678'') = None
   \<and> fetch_down (JStr ''abc12345678'') = Inl (PyExn ''TranscriptsDisabled'' ''Subtitles are disabled'')
   \<and> get_cached_transcript fetch_down (JStr ''abc12345678'') store0
         = (Inr None, store0\<lparr>fetch_log := [JStr ''abc12345678'']\<rparr>)
   \<and> fetch_log (snd (get_cached_transcript fetch_ok (JStr ''abc12345678'')
                          (snd (get_cached_transcript fetch_down (JStr ''abc12345678'') store0))))
         = [JStr ''abc12345678'', JStr ''abc12345678'']"
  using get_cached_transcript_failure_not_cached
    [of "JStr ''abc12345678''" store0 fetch_down
        "PyExn ''TranscriptsDisabled'' ''Subtitles are disabled''" fetch_ok]
  by (auto simp: store0_def fetch_down_def)

text \<open>
  C7. When the id is not cached and the transcript service answers, the transcript
  returned is the texts of all entries joined with single spaces in source order, and
  the state returned with it holds that transcript under the id as the newest item of
  the cache.
\<close>

theorem get_cached_transcript_stores_joined_text:
  assumes "hashable video_id"
    and "cache_get (cache s) video_id = None"
    and "fetch video_id = Inr transcript_list"
  shows "get_cached_transcript fetch video_id s
           = (Inr (Some (spec_transcript transcript_list)),
              s\<lparr>fetch_log := fetch_log s @ [video_id],
                cache := cache s @ [(video_id, spec_transcript transcript_list)]\<rparr>)
       \<and> cache_get (cache (snd (get_cached_transcript fetch video_id s))) video_id
           = Some (spec_transcript transcript_list)"
  using assms
  by (simp add: get_cached_transcript_def Let_def cache_set_absent
                cache_get_append_absent py_join_spec_transcript)

theorem get_cached_transcript_stores_joined_text_witness:
  "hashable (JStr ''dQw4w9WgXcQ'')
   \<and> cache_get (cache store0) (JStr ''dQw4w9WgXcQ'') = None
   \<and> fetch_ok (JStr ''dQw4w9WgXcQ'') = Inr sample_entries
   \<and> get_cached_transcript fetch_ok (JStr ''dQw4w9WgXcQ'') store0
         = (Inr (Some ''never gonna give you up''),
            \<lparr>cache = [(JStr ''dQw4w9WgXcQ'', ''never gonna give you up'')],
              fetch_log = [JStr ''dQw4w9WgXcQ''], llm_log = []\<rparr>)"
  using get_cached_transcript_stores_joined_text
    [of "JStr ''dQw4w9WgXcQ''" store0 fetch_ok sample_entries]
  by (simp add: store0_def fetch_ok_def sample_entries_def)

text \<open>
  C6. \<^verbatim>\<open>cache_status\<close> returns the state it was given. For every cache that is
  the items of a dict (the start state is one and every handler keeps it so), its
  \<^verbatim>\<open>cached_videos\<close> is the number of cached ids, its \<^verbatim>\<open>video_ids\<close> lists the
  keys of the cache, each once, and they are the ids a lookup finds; its
  \<^verbatim>\<open>total_cache_size\<close> is the sum of the lengths of the stored transcripts.
\<close>

theorem cache_status_snapshot:
  assumes "wf_cache (cache s)"
  shows "cache_status s
           = (Inr \<lparr>resp_status = 200,
                   resp_body = JObj
                     [(''cached_videos'', JInt (int (card (set (map fst (cache s)))))),
                      (''video_ids'', JArr (map fst (cache s))),
                      (''total_cache_size'',
                         JInt (int (\<Sum>transcript \<leftarrow> map snd (cache s). length transcript)))]\<rparr>,
              s)
       \<and> distinct (map fst (cache s))
       \<and> (\<forall>k. cache_get (cache s) k \<noteq> None \<longleftrightarrow> (\<exists>k' \<in> set (map fst (cache s)). py_eq k' k))"
proof -
  have d: "distinct (map fst (cache s))"
    using assms by (rule wf_cache_distinct)
  then have c: "card (set (map fst (cache s))) = length (cache s)"
    using distinct_card [of "map fst (cache s)"] by simp
  show ?thesis
    using d c cache_get_iff_keys [of "cache s"]
    by (simp add: cache_status_def)
qed

theorem cache_status_snapshot_witness:
  "wf_cache (cache \<lparr>cache = [(JStr ''dQw4w9WgXcQ'', ''never gonna give you up''),
                              (JStr ''abc12345678'', ''hello'')],
                     fetch_log = [], llm_log = []\<rparr>)
   \<and> cache_status \<lparr>cache = [(JStr ''dQw4w9WgXcQ'', ''never gonna give you up''),
                              (JStr ''abc12345678'', ''hello'')],
                     fetch_log = [], llm_log = []\<rparr>
       = (Inr \<lparr>resp_status = 200,
               resp_body = JObj
                 [(''cached_videos'', JInt 2),
                  (''video_ids'', JArr [JStr ''dQw4w9WgXcQ'', JStr ''abc12345678'']),
                  (''total_cache_size'', JInt 28)]\<rparr>,
          \<lparr>cache = [(JStr ''dQw4w9WgXcQ'', ''never gonna give you up''),
                     (JStr ''abc12345678'', ''hello'')],
            fetch_log = [], llm_log = []\<rparr>)"
  using cache_status_snapshot
    [of "\<lparr>cache = [(JStr ''dQw4w9WgXcQ'', ''never gonna give you up''),
                     (JStr ''abc12345678'', ''hello'')],
            fetch_log = [], llm_log = []\<rparr>"]
  by (simp add: py_eq_def)

text \<open>
  C5, as amended. \<^verbatim>\<open>clear_cache\<close> empties the cache and reports the number of entries
  it removed inside the text of its \<^verbatim>\<open>message\<close> field, the only field of the response.
  After it the cache status counts zero videos, and a lookup of an id that was cached
  before reaches the transcript service again.
\<close>

theorem clear_cache_reports_count_in_message:
  assumes "hashable video_id" and "cache_get (cache s) video_id = Some t"
  shows "clear_cache s
           = (Inr \<lparr>resp_status = 200,
                   resp_body = JObj
                     [(''message'',
                       JStr (''Cache cleared. Removed '' @ str_nat (length (cache s))
                               @ '' cached transcripts.''))]\<rparr>,
              s\<lparr>cache := []\<rparr>)
       \<and> fst (cache_status (snd (clear_cache s)))
           = Inr \<lparr>resp_status = 200,
                  resp_body = JObj
                    [(''cached_videos'', JInt 0),
                     (''video_ids'', JArr []),
                     (''total_cache_size'', JInt 0)]\<rparr>
       \<and> fetch_log (snd (get_cached_transcript fetch video_id (snd (clear_cache s))))
           = fetch_log s @ [video_id]"
  using assms
  by (simp add: clear_cache_def cache_status_def get_cached_transcript_def Let_def
           split: sum.splits)

theorem clear_cache_reports_count_in_message_witness:
  "hashable (JStr ''dQw4w9WgXcQ'')
   \<and> cache_get (cache \<lparr>cache = [(JStr ''dQw4w9WgXcQ'', ''never gonna give you up'')],
                        fetch_log = [JStr ''dQw4w9WgXcQ''], llm_log = []\<rparr>)
                (JStr ''dQw4w9WgXcQ'') = Some ''never gonna give you up''
   \<and> clear_cache \<lparr>cache = [(JStr ''dQw4w9WgXcQ'', ''never gonna give you up'')],
                   fetch_log = [JStr ''dQw4w9WgXcQ''], llm_log = []\<rparr>
       = (Inr \<lparr>resp_status = 200,
               resp_body = JObj
                 [(''message'', JStr ''Cache cleared. Removed 1 cached transcripts.'')]\<rparr>,
          \<lparr>cache = [], fetch_log = [JStr ''dQw4w9WgXcQ''], llm_log = []\<rparr>)
   \<and> fetch_log (snd (get_cached_transcript fetch_ok (JStr ''dQw4w9WgXcQ'')
                         (snd (clear_cache
                                 \<lparr>cache = [(JStr ''dQw4w9WgXcQ'', ''never gonna give you up'')],
                                   fetch_log = [JStr ''dQw4w9WgXcQ''], llm_log = []\<rparr>))))
       = [JStr ''dQw4w9WgXcQ'', JStr ''dQw4w9WgXcQ'']"
  using clear_cache_reports_count_in_message
    [of "JStr ''dQw4w9WgXcQ''"
        "\<lparr>cache = [(JStr ''dQw4w9WgXcQ'', ''never gonna give you up'')],
          fetch_log = [JStr ''dQw4w9WgXcQ''], llm_log = []\<rparr>"
        "''never gonna give you up''" fetch_ok]
  by (auto simp: py_eq_def str_nat_one)

text \<open>
  C5 as stated asks for a response of the shape \<^verbatim>\<open>{removed: integer}\<close>. With one cached
  video the response is the message below and not an object with the integer field
  \<^verbatim>\<open>removed\<close>.
\<close>

theorem clear_cache_removed_field_counterexample:
  "fst (clear_cache \<lparr>cache = [(JStr ''dQw4w9WgXcQ'', ''never gonna give you up'')],
                     fetch_log = [JStr ''dQw4w9WgXcQ''], llm_log = []\<rparr>)
     = Inr \<lparr>resp_status = 200,
            resp_body = JObj
              [(''message'', JStr ''Cache cleared. Removed 1 cached transcripts.'')]\<rparr>
   \<and> fst (clear_cache \<lparr>cache = [(JStr ''dQw4w9WgXcQ'', ''never gonna give you up'')],
                       fetch_log = [JStr ''dQw4w9WgXcQ''], llm_log = []\<rparr>)
     \<noteq> Inr \<lparr>resp_status = 200, resp_body = JObj [(''removed'', JInt 1)]\<rparr>"
  by (simp add: clear_cache_def str_nat_one)

section \<open>Claims about the video id\<close>

text \<open>
  C8. \<^verbatim>\<open>extract_video_id\<close> yields \<^verbatim>\<open>dQw4w9WgXcQ\<close> for the watch URL and for the
  short URL, and nothing for \<^verbatim>\<open>not a url\<close>. For every input the patterns are tried in
  order and the first one that matches decides the result; the result is an
  eleven-character token of the class that stands in the input right behind one of
  the alternatives; and the result is nothing exactly when no pattern matches, that is
  when no alternative is followed by such a token anywhere in the input.
\<close>

theorem extract_video_id_first_match:
  "extract_video_id ''https://www.youtube.com/watch?v=dQw4w9WgXcQ'' = Some ''dQw4w9WgXcQ''
   \<and> extract_video_id ''https://youtu.be/dQw4w9WgXcQ'' = Some ''dQw4w9WgXcQ''
   \<and> extract_video_id ''not a url'' = None
   \<and> (\<forall>ps1 p ps2 g.
         patterns = ps1 @ p # ps2 \<and> (\<forall>q \<in> set ps1. re_search q url = None)
           \<and> re_search p url = Some g
         \<longrightarrow> extract_video_id url = Some g)
   \<and> (\<forall>g. extract_video_id url = Some g \<longrightarrow>
         length g = 11 \<and> list_all id_char g
         \<and> (\<exists>ps1 p ps2. patterns = ps1 @ p # ps2 \<and> (\<forall>q \<in> set ps1. re_search q url = None)
                          \<and> re_search p url = Some g)
         \<and> (\<exists>pre. \<exists>alt \<in> set (concat patterns). \<exists>post. url = pre @ alt @ g @ post))
   \<and> (extract_video_id url = None \<longleftrightarrow> (\<forall>p \<in> set patterns. re_search p url = None))
   \<and> (extract_video_id url = None \<longleftrightarrow>
         \<not> (\<exists>pre. \<exists>alt \<in> set (concat patterns). \<exists>g post.
               url = pre @ alt @ g @ post \<and> length g = 11 \<and> list_all id_char g))"
proof -
  have wins: "\<forall>ps1 p ps2 g.
         patterns = ps1 @ p # ps2 \<and> (\<forall>q \<in> set ps1. re_search q url = None)
           \<and> re_search p url = Some g
         \<longrightarrow> extract_video_id url = Some g"
    unfolding extract_video_id_def using first_match_wins by blast
  have some: "\<forall>g. extract_video_id url = Some g \<longrightarrow>
         length g = 11 \<and> list_all id_char g
         \<and> (\<exists>ps1 p ps2. patterns = ps1 @ p # ps2 \<and> (\<forall>q \<in> set ps1. re_search q url = None)
                          \<and> re_search p url = Some g)
         \<and> (\<exists>pre. \<exists>alt \<in> set (concat patterns). \<exists>post. url = pre @ alt @ g @ post)"
  proof (intro allI impI)
    fix g
    assume "extract_video_id url = Some g"
    then have "first_match patterns url = Some g" by (simp add: extract_video_id_def)
    then obtain ps1 p ps2 where
      p: "patterns = ps1 @ p # ps2" "\<forall>q \<in> set ps1. re_search q url = None"
         "re_search p url = Some g"
      using first_match_Some by blast
    from p(3) obtain pre alt post where
      a: "alt \<in> set p" "url = pre @ alt @ g @ post" "length g = 11" "list_all id_char g"
      using re_search_Some by blast
    have "p \<in> set patterns" unfolding p(1) by simp
    with a(1) have "alt \<in> set (concat patterns)" by auto
    with p a show "length g = 11 \<and> list_all id_char g
         \<and> (\<exists>ps1 p ps2. patterns = ps1 @ p # ps2 \<and> (\<forall>q \<in> set ps1. re_search q url = None)
                          \<and> re_search p url = Some g)
         \<and> (\<exists>pre. \<exists>alt \<in> set (concat patterns). \<exists>post. url = pre @ alt @ g @ post)"
      by blast
  qed
  have none: "extract_video_id url = None \<longleftrightarrow> (\<forall>p \<in> set patterns. re_search p url = None)"
    by (simp add: extract_video_id_def first_match_None)
  have none2: "extract_video_id url = None \<longleftrightarrow>
         \<not> (\<exists>pre. \<exists>alt \<in> set (concat patterns). \<exists>g post.
               url = pre @ alt @ g @ post \<and> length g = 11 \<and> list_all id_char g)"
  proof
    assume n: "extract_video_id url = None"
    show "\<not> (\<exists>pre. \<exists>alt \<in> set (concat patterns). \<exists>g post.
               url = pre @ alt @ g @ post \<and> length g = 11 \<and> list_all id_char g)"
    proof
      assume "\<exists>pre. \<exists>alt \<in> set (concat patterns). \<exists>g post.
               url = pre @ alt @ g @ post \<and> length g = 11 \<and> list_all id_char g"
      then obtain pre alt g post p where
        m: "p \<in> set patterns" "alt \<in> set p" "url = pre @ alt @ g @ post" "length g = 11"
           "list_all id_char g"
        by auto
      from n m(1) have "re_search p url = None" using none by blast
      then have "\<not> list_all id_char g" using m(2,3,4) by (rule re_search_None)
      with m(5) show False by simp
    qed
  next
    assume no: "\<not> (\<exists>pre. \<exists>alt \<in> set (concat patterns). \<exists>g post.
               url = pre @ alt @ g @ post \<and> length g = 11 \<and> list_all id_char g)"
    show "extract_video_id url = None"
    proof (cases "extract_video_id url")
      case None
      then show ?thesis .
    next
      case (Some g)
      with some have "length g = 11" "list_all id_char g"
        "\<exists>pre. \<exists>alt \<in> set (concat patterns). \<exists>post. url = pre @ alt @ g @ post"
        by blast+
      with no show ?thesis by blast
    qed
  qed
  show ?thesis
    by (intro conjI) (rule extract_watch_url extract_short_url extract_not_a_url wins some none none2)+
qed

theorem extract_video_id_first_match_witness:
  "patterns = [] @ [''v='', ''/''] # [[''embed/''], [''watch?v='']]
   \<and> re_search [''v='', ''/''] ''https://www.youtube.com/embed/dQw4w9WgXcQ'' = Some ''dQw4w9WgXcQ''
   \<and> extract_video_id ''https://www.youtube.com/embed/dQw4w9WgXcQ'' = Some ''dQw4w9WgXcQ''
   \<and> length ''dQw4w9WgXcQ'' = 11 \<and> list_all id_char ''dQw4w9WgXcQ''"
proof -
  note t = extract_video_id_first_match [of "''https://www.youtube.com/embed/dQw4w9WgXcQ''"]
  note wins = t [THEN conjunct2, THEN conjunct2, THEN conjunct2, THEN conjunct1, rule_format]
  note some = t [THEN conjunct2, THEN conjunct2, THEN conjunct2, THEN conjunct2, THEN conjunct1,
                 rule_format]
  have p: "patterns = [] @ [''v='', ''/''] # [[''embed/''], [''watch?v='']]"
    by (simp add: patterns_def)
  have r: "re_search [''v='', ''/''] ''https://www.youtube.com/embed/dQw4w9WgXcQ''
             = Some ''dQw4w9WgXcQ''"
    by (simp add: capture11_def id_char_def)
  have e: "extract_video_id ''https://www.youtube.com/embed/dQw4w9WgXcQ'' = Some ''dQw4w9WgXcQ''"
    using wins [of "[]" "[''v='', ''/'']" "[[''embed/''], [''watch?v='']]" "''dQw4w9WgXcQ''"] p r
    by simp
  have l: "length ''dQw4w9WgXcQ'' = 11 \<and> list_all id_char ''dQw4w9WgXcQ''"
    using some [OF e] by simp
  from p r e l show ?thesis by simp
qed

section \<open>Claims about the handlers\<close>

text \<open>
  C3. When the request carries a question and a video id whose transcript (cached or
  just fetched) is longer than 3000 characters, the one message sent to the language
  model holds the first 3000 characters of the transcript between
  \<^verbatim>\<open>Transcript: \<close> and the literal \<^verbatim>\<open>...\<close>, and these 3000 characters are not the
  whole transcript.
\<close>

theorem ask_tutor_truncates_transcript:
  assumes "req = Inr (JObj kvs)"
    and "truthy (dict_get kvs ''question'' (JStr []))"
    and "truthy (dict_get kvs ''videoId'' (JStr []))"
    and "get_cached_transcript fetch (dict_get kvs ''videoId'' (JStr [])) s = (Inr (Some t), s1)"
    and "3000 < length t"
  shows "llm_log (snd (ask_tutor fmt fetch llm req s))
           = llm_log s @
             [''Context: ''
                @ ''Video: '' @ fmt (dict_get kvs ''videoTitle'' (JStr [])) @ [CHR 0x0A]
                @ ''Current time: '' @ fmt (dict_get kvs ''currentTime'' (JInt 0)) @ ''s''
                @ [CHR 0x0A] @ ''Transcript: '' @ take 3000 t @ ''...''
                @ [CHR 0x0A, CHR 0x0A]
                @ ''Question: '' @ fmt (dict_get kvs ''question'' (JStr []))]
       \<and> length (take 3000 t) = 3000
       \<and> take 3000 t \<noteq> t"
proof -
  have l: "llm_log s1 = llm_log s"
    using get_cached_transcript_llm_log [of fetch "dict_get kvs ''videoId'' (JStr [])" s] assms(4)
    by simp
  have ne: "t \<noteq> []" using assms(5) by auto
  have "take 3000 t \<noteq> t"
  proof
    assume "take 3000 t = t"
    then have "length (take 3000 t) = length t" by simp
    with assms(5) show False by simp
  qed
  moreover have "length (take 3000 t) = 3000" using assms(5) by simp
  moreover have "llm_log (snd (ask_tutor fmt fetch llm req s))
           = llm_log s @
             [''Context: ''
                @ ''Video: '' @ fmt (dict_get kvs ''videoTitle'' (JStr [])) @ [CHR 0x0A]
                @ ''Current time: '' @ fmt (dict_get kvs ''currentTime'' (JInt 0)) @ ''s''
                @ [CHR 0x0A] @ ''Transcript: '' @ take 3000 t @ ''...''
                @ [CHR 0x0A, CHR 0x0A]
                @ ''Question: '' @ fmt (dict_get kvs ''question'' (JStr []))]"
    using assms(1-4) l ne
    by (simp add: ask_tutor_def ask_tutor_body_def Let_def split: sum.splits)
  ultimately show ?thesis by simp
qed

theorem ask_tutor_truncates_transcript_witness:
  "truthy (dict_get [(''question'', JStr ''What is this about?''),
                     (''videoId'', JStr ''dQw4w9WgXcQ'')] ''question'' (JStr []))
   \<and> truthy (dict_get [(''question'', JStr ''What is this about?''),
                       (''videoId'', JStr ''dQw4w9WgXcQ'')] ''videoId'' (JStr []))
   \<and> get_cached_transcript fetch_down (JStr ''dQw4w9WgXcQ'')
         \<lparr>cache = [(JStr ''dQw4w9WgXcQ'', replicate 3001 (CHR ''a''))],
           fetch_log = [], llm_log = []\<rparr>
       = (Inr (Some (replicate 3001 (CHR ''a''))),
          \<lparr>cache = [(JStr ''dQw4w9WgXcQ'', replicate 3001 (CHR ''a''))],
            fetch_log = [], llm_log = []\<rparr>)
   \<and> 3000 < length (replicate 3001 (CHR ''a''))
   \<and> llm_log (snd (ask_tutor fmt_scalar fetch_down llm_ok
                       (Inr (JObj [(''question'', JStr ''What is this about?''),
                                   (''videoId'', JStr ''dQw4w9WgXcQ'')]))
                       \<lparr>cache = [(JStr ''dQw4w9WgXcQ'', replicate 3001 (CHR ''a''))],
                         fetch_log = [], llm_log = []\<rparr>))
       = [''Context: Video: '' @ [CHR 0x0A] @ ''Current time: 0s'' @ [CHR 0x0A]
            @ ''Transcript: '' @ replicate 3000 (CHR ''a'') @ ''...''
            @ [CHR 0x0A, CHR 0x0A] @ ''Question: What is this about?'']"
  using ask_tutor_truncates_transcript
    [of "Inr (JObj [(''question'', JStr ''What is this about?''),
                    (''videoId'', JStr ''dQw4w9WgXcQ'')])"
        "[(''question'', JStr ''What is this about?''), (''videoId'', JStr ''dQw4w9WgXcQ'')]"
        fetch_down
        "\<lparr>cache = [(JStr ''dQw4w9WgXcQ'', replicate 3001 (CHR ''a''))],
          fetch_log = [], llm_log = []\<rparr>"
        "replicate 3001 (CHR ''a'')"
        "\<lparr>cache = [(JStr ''dQw4w9WgXcQ'', replicate 3001 (CHR ''a''))],
          fetch_log = [], llm_log = []\<rparr>"
        fmt_scalar llm_ok]
  by (simp add: dict_get_def get_cached_transcript_def py_eq_def fmt_scalar_def str_nat_zero)

text \<open>
  C4, as amended. When the body of the request is a JSON object without a question,
  or with a question that Python takes for false, \<^verbatim>\<open>ask_tutor\<close> answers 400 with the
  error \<^verbatim>\<open>Question is required\<close>. Whenever the request holds no such question, whatever
  its body, the handler leaves the state as it is: it calls neither the transcript
  service nor the language model.
\<close>

theorem ask_tutor_question_required:
  assumes "\<forall>kvs. req = Inr (JObj kvs) \<longrightarrow> \<not> truthy (dict_get kvs ''question'' (JStr []))"
  shows "snd (ask_tutor fmt fetch llm req s) = s
       \<and> (\<forall>kvs. req = Inr (JObj kvs) \<longrightarrow>
             fst (ask_tutor fmt fetch llm req s)
               = Inr \<lparr>resp_status = 400,
                      resp_body = JObj [(''error'', JStr ''Question is required'')]\<rparr>)"
  using assms
  by (auto simp: ask_tutor_def ask_tutor_body_def Let_def split: sum.splits json.splits)

theorem ask_tutor_question_required_witness:
  "\<not> truthy (dict_get [] ''question'' (JStr []))
   \<and> ask_tutor fmt_scalar fetch_ok llm_ok (Inr (JObj [])) store0
       = (Inr \<lparr>resp_status = 400,
               resp_body = JObj [(''error'', JStr ''Question is required'')]\<rparr>, store0)"
  using ask_tutor_question_required [of "Inr (JObj [])" fmt_scalar fetch_ok llm_ok store0]
  by (auto simp: dict_get_def prod_eq_iff)

text \<open>
  C4 as stated covers every request whose body lacks a question. A body that is the
  JSON array \<^verbatim>\<open>[]\<close> lacks one, and the answer is 500: \<^verbatim>\<open>data.get\<close> raises
  AttributeError before the question is looked at, and the handler's
  \<^verbatim>\<open>except\<close> takes it.
\<close>

theorem ask_tutor_array_body_counterexample:
  "fst (ask_tutor fmt_scalar fetch_ok llm_ok (Inr (JArr [])) store0)
     = Inr \<lparr>resp_status = 500,
            resp_body = JObj
              [(''error'',
                JStr (''Error processing request: ''
                        @ exn_str (attribute_error (JArr []) ''get'')))]\<rparr>"
  by (simp add: ask_tutor_def ask_tutor_body_def)

text \<open>
  C9, as amended. Every handler returns exactly one response for every input and
  state: \<^verbatim>\<open>ask_tutor\<close> and \<^verbatim>\<open>get_transcript\<close> turn every exception of their body
  into a 500 whose error text ends with \<^verbatim>\<open>str(e)\<close>, and the three handlers without a
  \<^verbatim>\<open>try\<close> have nothing that raises. An exception of the language model call in
  \<^verbatim>\<open>ask_tutor\<close> gives such a 500. An exception of the transcript service does not
  reach the handler: \<^verbatim>\<open>get_cached_transcript\<close> catches it, \<^verbatim>\<open>get_transcript\<close>
  answers 404, and \<^verbatim>\<open>ask_tutor\<close> goes on without a transcript and answers 200
  with \<^verbatim>\<open>cached\<close> false when the language model answers.
\<close>

theorem handlers_return_one_response:
  "(\<exists>r. fst (health_check api_key s) = Inr r)
   \<and> (\<exists>r. fst (ask_tutor fmt fetch llm req s) = Inr r)
   \<and> (\<exists>r. fst (get_transcript fetch req s) = Inr r)
   \<and> (\<exists>r. fst (cache_status s) = Inr r)
   \<and> (\<exists>r. fst (clear_cache s) = Inr r)
   \<and> (\<forall>e s'. ask_tutor_body fmt fetch llm req s = (Inl e, s') \<longrightarrow>
         ask_tutor fmt fetch llm req s
           = (Inr \<lparr>resp_status = 500,
                   resp_body = JObj
                     [(''error'', JStr (''Error processing request: '' @ exn_str e))]\<rparr>, s'))
   \<and> (\<forall>e s'. get_transcript_body fetch req s = (Inl e, s') \<longrightarrow>
         get_transcript fetch req s
           = (Inr \<lparr>resp_status = 500,
                   resp_body = JObj
                     [(''error'', JStr (''Failed to get transcript: '' @ exn_str e))]\<rparr>, s'))
   \<and> (\<forall>kvs e.
         req = Inr (JObj kvs) \<and> truthy (dict_get kvs ''question'' (JStr []))
           \<and> (truthy (dict_get kvs ''videoId'' (JStr []))
                \<longrightarrow> hashable (dict_get kvs ''videoId'' (JStr [])))
           \<and> (\<forall>content. llm content = Inl e)
         \<longrightarrow> fst (ask_tutor fmt fetch llm req s)
               = Inr \<lparr>resp_status = 500,
                      resp_body = JObj
                        [(''error'', JStr (''Error processing request: '' @ exn_str e))]\<rparr>)
   \<and> (\<forall>kvs e.
         req = Inr (JObj kvs) \<and> truthy (dict_get kvs ''videoId'' (JStr []))
           \<and> hashable (dict_get kvs ''videoId'' (JStr []))
           \<and> cache_get (cache s) (dict_get kvs ''videoId'' (JStr [])) = None
           \<and> fetch (dict_get kvs ''videoId'' (JStr [])) = Inl e
         \<longrightarrow> get_transcript fetch req s
               = (Inr \<lparr>resp_status = 404,
                       resp_body = JObj
                         [(''error'', JStr ''No transcript available for this video'')]\<rparr>,
                  s\<lparr>fetch_log := fetch_log s @ [dict_get kvs ''videoId'' (JStr [])]\<rparr>))
   \<and> (\<forall>kvs e answer.
         req = Inr (JObj kvs) \<and> truthy (dict_get kvs ''question'' (JStr []))
           \<and> truthy (dict_get kvs ''videoId'' (JStr []))
           \<and> hashable (dict_get kvs ''videoId'' (JStr []))
           \<and> cache_get (cache s) (dict_get kvs ''videoId'' (JStr [])) = None
           \<and> fetch (dict_get kvs ''videoId'' (JStr [])) = Inl e
           \<and> (\<forall>content. llm content = Inr answer)
         \<longrightarrow> fst (ask_tutor fmt fetch llm req s)
               = Inr \<lparr>resp_status = 200,
                      resp_body = JObj
                        [(''answer'', JStr answer),
                         (''videoTitle'', dict_get kvs ''videoTitle'' (JStr [])),
                         (''currentTime'', dict_get kvs ''currentTime'' (JInt 0)),
                         (''cached'', JBool False)]\<rparr>)"
proof -
  have h: "\<exists>r. fst (health_check api_key s) = Inr r"
    by (simp add: health_check_def)
  have a: "\<exists>r. fst (ask_tutor fmt fetch llm req s) = Inr r"
    by (cases "ask_tutor_body fmt fetch llm req s"; cases "fst (ask_tutor_body fmt fetch llm req s)")
       (simp_all add: ask_tutor_def)
  have g: "\<exists>r. fst (get_transcript fetch req s) = Inr r"
    by (cases "get_transcript_body fetch req s"; cases "fst (get_transcript_body fetch req s)")
       (simp_all add: get_transcript_def)
  have c: "\<exists>r. fst (cache_status s) = Inr r"
    by (simp add: cache_status_def)
  have k: "\<exists>r. fst (clear_cache s) = Inr r"
    by (simp add: clear_cache_def Let_def)
  have a500: "\<forall>e s'. ask_tutor_body fmt fetch llm req s = (Inl e, s') \<longrightarrow>
         ask_tutor fmt fetch llm req s
           = (Inr \<lparr>resp_status = 500,
                   resp_body = JObj
                     [(''error'', JStr (''Error processing request: '' @ exn_str e))]\<rparr>, s')"
    by (simp add: ask_tutor_def)
  have g500: "\<forall>e s'. get_transcript_body fetch req s = (Inl e, s') \<longrightarrow>
         get_transcript fetch req s
           = (Inr \<lparr>resp_status = 500,
                   resp_body = JObj
                     [(''error'', JStr (''Failed to get transcript: '' @ exn_str e))]\<rparr>, s')"
    by (simp add: get_transcript_def)
  have l: "\<forall>kvs e.
         req = Inr (JObj kvs) \<and> truthy (dict_get kvs ''question'' (JStr []))
           \<and> (truthy (dict_get kvs ''videoId'' (JStr []))
                \<longrightarrow> hashable (dict_get kvs ''videoId'' (JStr [])))
           \<and> (\<forall>content. llm content = Inl e)
         \<longrightarrow> fst (ask_tutor fmt fetch llm req s)
               = Inr \<lparr>resp_status = 500,
                      resp_body = JObj
                        [(''error'', JStr (''Error processing request: '' @ exn_str e))]\<rparr>"
    by (auto simp: ask_tutor_def ask_tutor_body_def Let_def get_cached_transcript_def
             split: sum.splits option.splits prod.splits)
  have f: "\<forall>kvs e.
         req = Inr (JObj kvs) \<and> truthy (dict_get kvs ''videoId'' (JStr []))
           \<and> hashable (dict_get kvs ''videoId'' (JStr []))
           \<and> cache_get (cache s) (dict_get kvs ''videoId'' (JStr [])) = None
           \<and> fetch (dict_get kvs ''videoId'' (JStr [])) = Inl e
         \<longrightarrow> get_transcript fetch req s
               = (Inr \<lparr>resp_status = 404,
                       resp_body = JObj
                         [(''error'', JStr ''No transcript available for this video'')]\<rparr>,
                  s\<lparr>fetch_log := fetch_log s @ [dict_get kvs ''videoId'' (JStr [])]\<rparr>)"
    by (simp add: get_transcript_def get_transcript_body_def Let_def get_cached_transcript_def)
  have f2: "\<forall>kvs e answer.
         req = Inr (JObj kvs) \<and> truthy (dict_get kvs ''question'' (JStr []))
           \<and> truthy (dict_get kvs ''videoId'' (JStr []))
           \<and> hashable (dict_get kvs ''videoId'' (JStr []))
           \<and> cache_get (cache s) (dict_get kvs ''videoId'' (JStr [])) = None
           \<and> fetch (dict_get kvs ''videoId'' (JStr [])) = Inl e
           \<and> (\<forall>content. llm content = Inr answer)
         \<longrightarrow> fst (ask_tutor fmt fetch llm req s)
               = Inr \<lparr>resp_status = 200,
                      resp_body = JObj
                        [(''answer'', JStr answer),
                         (''videoTitle'', dict_get kvs ''videoTitle'' (JStr [])),
                         (''currentTime'', dict_get kvs ''currentTime'' (JInt 0)),
                         (''cached'', JBool False)]\<rparr>"
    by (simp add: ask_tutor_def ask_tutor_body_def Let_def get_cached_transcript_def)
  show ?thesis
    by (intro conjI) (rule h a g c k a500 g500 l f f2)+
qed

theorem handlers_return_one_response_witness:
  "fst (ask_tutor fmt_scalar fetch_ok llm_down
          (Inr (JObj [(''question'', JStr ''What is this about?'')])) store0)
     = Inr \<lparr>resp_status = 500,
            resp_body = JObj
              [(''error'', JStr ''Error processing request: Connection error.'')]\<rparr>
   \<and> get_transcript fetch_down (Inr (JObj [(''videoId'', JStr ''abc12345678'')])) store0
     = (Inr \<lparr>resp_status = 404,
             resp_body = JObj
               [(''error'', JStr ''No transcript available for this video'')]\<rparr>,
        store0\<lparr>fetch_log := [JStr ''abc12345678'']\<rparr>)"
proof -
  note t1 = handlers_return_one_response
    [of None store0 fmt_scalar fetch_ok llm_down
        "Inr (JObj [(''question'', JStr ''What is this about?'')])"]
  note t2 = handlers_return_one_response
    [of None store0 fmt_scalar fetch_down llm_down
        "Inr (JObj [(''videoId'', JStr ''abc12345678'')])"]
  note llm = t1 [THEN conjunct2, THEN conjunct2, THEN conjunct2, THEN conjunct2, THEN conjunct2,
                 THEN conjunct2, THEN conjunct2, THEN conjunct1, rule_format,
                 of "[(''question'', JStr ''What is this about?'')]"
                    "PyExn ''APIConnectionError'' ''Connection error.''"]
  note fet = t2 [THEN conjunct2, THEN conjunct2, THEN conjunct2, THEN conjunct2, THEN conjunct2,
                 THEN conjunct2, THEN conjunct2, THEN conjunct2, THEN conjunct1, rule_format,
                 of "[(''videoId'', JStr ''abc12345678'')]"
                    "PyExn ''TranscriptsDisabled'' ''Subtitles are disabled''"]
  have a: "fst (ask_tutor fmt_scalar fetch_ok llm_down
          (Inr (JObj [(''question'', JStr ''What is this about?'')])) store0)
     = Inr \<lparr>resp_status = 500,
            resp_body = JObj
              [(''error'', JStr ''Error processing request: Connection error.'')]\<rparr>"
    using llm by (simp add: dict_get_def llm_down_def)
  have b: "get_transcript fetch_down (Inr (JObj [(''videoId'', JStr ''abc12345678'')])) store0
     = (Inr \<lparr>resp_status = 404,
             resp_body = JObj
               [(''error'', JStr ''No transcript available for this video'')]\<rparr>,
        store0\<lparr>fetch_log := [JStr ''abc12345678'']\<rparr>)"
    using fet by (simp add: dict_get_def fetch_down_def store0_def)
  from a b show ?thesis by simp
qed

text \<open>
  C9 as stated has an exception of the transcript service end in a 500. For an id that
  is not cached and a service that raises, \<^verbatim>\<open>get_transcript\<close> answers 404.
\<close>

theorem get_transcript_fetch_error_counterexample:
  "fetch_down (JStr ''abc12345678'') = Inl (PyExn ''TranscriptsDisabled'' ''Subtitles are disabled'')
   \<and> fst (get_transcript fetch_down (Inr (JObj [(''videoId'', JStr ''abc12345678'')])) store0)
       = Inr \<lparr>resp_status = 404,
              resp_body = JObj
                [(''error'', JStr ''No transcript available for this video'')]\<rparr>"
  by (simp add: get_transcript_def get_transcript_body_def dict_get_def
                get_cached_transcript_def store0_def fetch_down_def)

text \<open>
  C10. In a response of \<^verbatim>\<open>ask_tutor\<close> with status 200, the field \<^verbatim>\<open>cached\<close> tells
  whether the request carried a video id that is in the cache after the transcript
  lookup of this request. So it is true when the transcript was fetched for the first
  time during this request, and it is false only when no video id was given or the
  fetch failed.
\<close>

theorem ask_tutor_cached_flag:
  assumes "req = Inr (JObj kvs)"
    and "video_id = dict_get kvs ''videoId'' (JStr [])"
    and "ask_tutor fmt fetch llm req s = (Inr r, s')"
    and "resp_status r = 200"
  shows "\<exists>b. body_field r ''cached'' = Some (JBool b)
           \<and> b = (truthy video_id \<and> cache_get (cache s') video_id \<noteq> None)
           \<and> (truthy video_id \<and> cache_get (cache s) video_id = None
                \<and> (\<exists>transcript_list. fetch video_id = Inr transcript_list) \<longrightarrow> b)
           \<and> (\<not> b \<longrightarrow> \<not> truthy video_id \<or> (\<exists>e. fetch video_id = Inl e))"
  using assms
  by (auto simp: ask_tutor_def ask_tutor_body_def Let_def body_field_def
                 get_cached_transcript_def cache_get_set_same
           split: sum.splits if_splits option.splits prod.splits)

theorem ask_tutor_cached_flag_witness:
  "ask_tutor fmt_scalar fetch_ok llm_ok
     (Inr (JObj [(''question'', JStr ''What is this about?''),
                 (''videoId'', JStr ''dQw4w9WgXcQ'')])) store0
     = (Inr \<lparr>resp_status = 200,
             resp_body = JObj
               [(''answer'', JStr ''It is a song.''),
                (''videoTitle'', JStr []),
                (''currentTime'', JInt 0),
                (''cached'', JBool True)]\<rparr>,
        \<lparr>cache = [(JStr ''dQw4w9WgXcQ'', ''never gonna give you up'')],
          fetch_log = [JStr ''dQw4w9WgXcQ''],
          llm_log = [''Context: Video: '' @ [CHR 0x0A] @ ''Current time: 0s'' @ [CHR 0x0A]
                       @ ''Transcript: never gonna give you up...''
                       @ [CHR 0x0A, CHR 0x0A] @ ''Question: What is this about?'']\<rparr>)
   \<and> (\<exists>b. body_field
              \<lparr>resp_status = 200,
                resp_body = JObj
                  [(''answer'', JStr ''It is a song.''),
                   (''videoTitle'', JStr []),
                   (''currentTime'', JInt 0),
                   (''cached'', JBool True)]\<rparr> ''cached'' = Some (JBool b) \<and> b = True)"
proof -
  have run: "ask_tutor fmt_scalar fetch_ok llm_ok
     (Inr (JObj [(''question'', JStr ''What is this about?''),
                 (''videoId'', JStr ''dQw4w9WgXcQ'')])) store0
     = (Inr \<lparr>resp_status = 200,
             resp_body = JObj
               [(''answer'', JStr ''It is a song.''),
                (''videoTitle'', JStr []),
                (''currentTime'', JInt 0),
                (''cached'', JBool True)]\<rparr>,
        \<lparr>cache = [(JStr ''dQw4w9WgXcQ'', ''never gonna give you up'')],
          fetch_log = [JStr ''dQw4w9WgXcQ''],
          llm_log = [''Context: Video: '' @ [CHR 0x0A] @ ''Current time: 0s'' @ [CHR 0x0A]
                       @ ''Transcript: never gonna give you up...''
                       @ [CHR 0x0A, CHR 0x0A] @ ''Question: What is this about?'']\<rparr>)"
    by (simp add: ask_tutor_def ask_tutor_body_def dict_get_def get_cached_transcript_def
                  Let_def store0_def fetch_ok_def sample_entries_def llm_ok_def
                  fmt_scalar_def str_nat_zero py_eq_def)
  have vid: "JStr ''dQw4w9WgXcQ''
               = dict_get [(''question'', JStr ''What is this about?''),
                           (''videoId'', JStr ''dQw4w9WgXcQ'')] ''videoId'' (JStr [])"
    by (simp add: dict_get_def)
  from ask_tutor_cached_flag [OF refl vid run]
  obtain b where
    f: "body_field
          \<lparr>resp_status = 200,
            resp_body = JObj
              [(''answer'', JStr ''It is a song.''),
               (''videoTitle'', JStr []),
               (''currentTime'', JInt 0),
               (''cached'', JBool True)]\<rparr> ''cached'' = Some (JBool b)"
    and i: "truthy (JStr ''dQw4w9WgXcQ'') \<and> cache_get (cache store0) (JStr ''dQw4w9WgXcQ'') = None
              \<and> (\<exists>transcript_list. fetch_ok (JStr ''dQw4w9WgXcQ'') = Inr transcript_list)
            \<longrightarrow> b"
    by auto
  from i have "b = True" by (simp add: store0_def fetch_ok_def)
  with f run show ?thesis by blast
qed

end
